theory Spec2Isabelle
  imports Complex_Main
begin

section \<open>The numeric layer\<close>

text \<open>
  The notebook \<^verbatim>\<open>01-Clustering\<close> works on numpy arrays of floats. A float is
  modelled as an exact real number or the value NaN: arithmetic on two numbers is the
  exact result, and every operation with a NaN operand gives NaN, as in IEEE 754.
  Rounding and overflow are not modelled. A 2-D array of shape (M, D) is the list of
  its M rows, each a list of D entries; the column count of an array with no rows is
  not represented.
\<close>

datatype flt = Val real | NaN

datatype error = ValueError

type_synonym arr = "flt list list"

fun fadd :: "flt \<Rightarrow> flt \<Rightarrow> flt" where
  "fadd (Val a) (Val b) = Val (a + b)"
| "fadd _ _ = NaN"

fun fsub :: "flt \<Rightarrow> flt \<Rightarrow> flt" where
  "fsub (Val a) (Val b) = Val (a - b)"
| "fsub _ _ = NaN"

fun fmul :: "flt \<Rightarrow> flt \<Rightarrow> flt" where
  "fmul (Val a) (Val b) = Val (a * b)"
| "fmul _ _ = NaN"

text \<open>
  Division: the program divides only a column sum by a row count (in \<^verbatim>\<open>mean\<close>),
  where a zero count comes with a zero sum, and 0/0 is NaN.
\<close>

fun fdiv :: "flt \<Rightarrow> flt \<Rightarrow> flt" where
  "fdiv (Val a) (Val b) = (if b = 0 then NaN else Val (a / b))"
| "fdiv _ _ = NaN"

fun fsqrt :: "flt \<Rightarrow> flt" where
  "fsqrt (Val a) = Val (sqrt a)"
| "fsqrt NaN = NaN"

text \<open>Comparisons with a NaN operand are false.\<close>

fun fgt :: "flt \<Rightarrow> real \<Rightarrow> bool" where
  "fgt (Val a) t = (a > t)"
| "fgt NaN t = False"

fun fge :: "flt \<Rightarrow> flt \<Rightarrow> bool" where
  "fge (Val a) (Val b) = (a \<ge> b)"
| "fge _ _ = False"

primrec fsum :: "flt list \<Rightarrow> flt" where
  "fsum [] = Val 0"
| "fsum (x # xs) = fadd x (fsum xs)"

text \<open>\<^verbatim>\<open>np.linalg.norm\<close> of a vector: the square root of the sum of the squares.\<close>

definition l2norm :: "flt list \<Rightarrow> flt" where
  "l2norm v = fsqrt (fsum (map (\<lambda>x. fmul x x) v))"

text \<open>\<^verbatim>\<open>np.linalg.norm\<close> of a 2-D array with no axis: the Frobenius norm.\<close>

definition fro_norm :: "arr \<Rightarrow> flt" where
  "fro_norm A = l2norm (concat A)"

text \<open>
  \<^verbatim>\<open>np.argmin\<close> along a non-empty sequence, as numpy's loop computes it: the
  running minimum \<open>mp\<close> at index \<open>mi\<close> is replaced by entry \<open>i\<close> when
  \<open>\<not> (entry \<ge> mp)\<close>, and the scan stops at the first NaN. The result is the first
  NaN's index if there is one, and the first index of the minimum otherwise. numpy
  raises ValueError on an empty sequence; \<open>closest\<close> makes that check before it
  calls \<open>np_argmin\<close>.
\<close>

fun argmin_scan :: "flt \<Rightarrow> nat \<Rightarrow> nat \<Rightarrow> flt list \<Rightarrow> nat" where
  "argmin_scan mp mi i [] = mi"
| "argmin_scan mp mi i (x # xs) =
     (if \<not> fge x mp then (if x = NaN then i else argmin_scan x i (Suc i) xs)
      else argmin_scan mp mi (Suc i) xs)"

fun np_argmin :: "flt list \<Rightarrow> nat" where
  "np_argmin [] = 0"
| "np_argmin (x # xs) = (if x = NaN then 0 else argmin_scan x 0 1 xs)"

text \<open>
  Broadcasting: two axis lengths are compatible when they are equal or one of them
  is 1; the axis of length 1 is repeated along the other.
\<close>

definition bc_ok :: "nat \<Rightarrow> nat \<Rightarrow> bool" where
  "bc_ok m n \<longleftrightarrow> m = n \<or> m = 1 \<or> n = 1"

definition ncols :: "arr \<Rightarrow> nat" where
  "ncols A = (case A of [] \<Rightarrow> 0 | r # _ \<Rightarrow> length r)"

definition bc_row :: "(flt \<Rightarrow> flt \<Rightarrow> flt) \<Rightarrow> flt list \<Rightarrow> flt list \<Rightarrow> flt list" where
  "bc_row f x y =
     (if length x = length y then map2 f x y
      else if length y = 1 then map (\<lambda>a. f a (hd y)) x
      else map (\<lambda>b. f (hd x) b) y)"

text \<open>
  \<open>A - B\<close> on 2-D arrays. Shapes that do not broadcast raise ValueError. The column
  counts are compared when both arrays have a row.
\<close>

definition bc_sub2 :: "arr \<Rightarrow> arr \<Rightarrow> error + arr" where
  "bc_sub2 A B =
     (if \<not> bc_ok (length A) (length B) \<or> (A \<noteq> [] \<and> B \<noteq> [] \<and> \<not> bc_ok (ncols A) (ncols B))
      then Inl ValueError
      else Inr (if length A = length B then map2 (bc_row fsub) A B
                else if length B = 1 then map (\<lambda>a. bc_row fsub a (hd B)) A
                else map (\<lambda>b. bc_row fsub (hd A) b) B))"

text \<open>
  The random source. \<^verbatim>\<open>np.random.choice(a, size=K)\<close> draws K indices below a, with
  replacement, from numpy's global generator. The generator is a parameter: \<open>rng i\<close>
  is its i-th raw draw, reduced to the range. A negative size raises ValueError, and
  so does an empty population unless no sample is taken.
\<close>

definition random_choice :: "(nat \<Rightarrow> nat) \<Rightarrow> nat \<Rightarrow> int \<Rightarrow> error + nat list" where
  "random_choice rng a sz =
     (if sz < 0 then Inl ValueError
      else if a = 0 \<and> sz \<noteq> 0 then Inl ValueError
      else Inr (map (\<lambda>i. rng i mod a) [0..<nat sz]))"

section \<open>The K-Means functions of the notebook\<close>

text \<open>
  \<^verbatim>\<open>def cluster_centers(X,K): return X[np.random.choice(len(X),size=K)]\<close>
\<close>

definition cluster_centers :: "(nat \<Rightarrow> nat) \<Rightarrow> arr \<Rightarrow> int \<Rightarrow> error + arr" where
  "cluster_centers rng X K =
     (case random_choice rng (length X) K of
        Inl e \<Rightarrow> Inl e
      | Inr idx \<Rightarrow> Inr (map (\<lambda>i. X ! i) idx))"

text \<open>
  \<^verbatim>\<open>def closest(X, centers):
    distances = np.linalg.norm(X - centers[:, np.newaxis,:], axis=2)
    return np.argmin(distances, axis=0)\<close>

  \<open>distances\<close> has shape (K, M): entry (k, i) is the norm of row i of X minus row k
  of the centers. The subtraction raises ValueError when the column counts do not
  broadcast, and \<^verbatim>\<open>argmin\<close> along axis 0 raises ValueError when there is no center.
\<close>

definition closest :: "arr \<Rightarrow> arr \<Rightarrow> error + nat list" where
  "closest X centers =
     (if centers = [] then Inl ValueError
      else if X \<noteq> [] \<and> \<not> bc_ok (ncols X) (ncols centers) then Inl ValueError
      else Inr (map (\<lambda>x. np_argmin (map (\<lambda>c. l2norm (bc_row fsub x c)) centers)) X))"

text \<open>
  \<^verbatim>\<open>def new_centers(X, centers):
    c = closest(X, centers)
    K = len(np.unique(c)) # Determine K by finding the number of labels in c
    return np.array([X[c==k].mean(axis=0) for k in range(K)])\<close>

  \<open>select_rows X c k\<close> is \<^verbatim>\<open>X[c==k]\<close>, the rows of X under the boolean mask.
  \<open>mean_axis0 D R\<close> is \<^verbatim>\<open>R.mean(axis=0)\<close> for R of shape (n, D): each column's sum
  divided by n, which is a row of D NaNs when n = 0 (numpy warns and does not raise).
\<close>

definition select_rows :: "'a list \<Rightarrow> nat list \<Rightarrow> nat \<Rightarrow> 'a list" where
  "select_rows X c k = map fst (filter (\<lambda>(x, l). l = k) (zip X c))"

definition mean_axis0 :: "nat \<Rightarrow> arr \<Rightarrow> flt list" where
  "mean_axis0 D R =
     map (\<lambda>d. fdiv (fsum (map (\<lambda>r. r ! d) R)) (Val (real (length R)))) [0..<D]"

definition new_centers :: "arr \<Rightarrow> arr \<Rightarrow> error + arr" where
  "new_centers X centers =
     (case closest X centers of
        Inl e \<Rightarrow> Inl e
      | Inr c \<Rightarrow>
          (let K = length (remdups c)
           in Inr (map (\<lambda>k. mean_axis0 (ncols X) (select_rows X c k)) [0..<K])))"

text \<open>
  \<^verbatim>\<open>def kMeans(X, K, max_iter = 10000):
    centers = X[np.random.choice(len(X),size=K)]
    iteration = 0
    Delta = 1
    while Delta > .001 and iteration < max_iter:
        moved = new_centers(X,centers)
        Delta = np.linalg.norm( moved - centers )
        iteration = iteration+1
        centers = moved
    print('Iterations to converge: ', iteration)
    labels = closest(X,centers)
    return centers, labels\<close>

  The loop is \<open>kMeans_loop\<close>. Beside the program's variables it counts the calls of
  \<open>new_centers\<close>. It gives that count and either the error raised in the body or the
  centers and the iteration count at the loop's exit.
\<close>

function kMeans_loop ::
  "arr \<Rightarrow> int \<Rightarrow> arr \<Rightarrow> nat \<Rightarrow> flt \<Rightarrow> nat \<Rightarrow> nat \<times> (error + arr \<times> nat)" where
  "kMeans_loop X max_iter centers iteration Delta ncalls =
     (if fgt Delta (1 / 1000) \<and> int iteration < max_iter then
        (case new_centers X centers of
           Inl e \<Rightarrow> (Suc ncalls, Inl e)
         | Inr moved \<Rightarrow>
             (case bc_sub2 moved centers of
                Inl e \<Rightarrow> (Suc ncalls, Inl e)
              | Inr diff \<Rightarrow>
                  kMeans_loop X max_iter moved (Suc iteration) (fro_norm diff) (Suc ncalls)))
      else (ncalls, Inr (centers, iteration)))"
  by pat_completeness auto
termination
  by (relation "measure (\<lambda>(X, max_iter, centers, iteration, Delta, ncalls).
        nat (max_iter - int iteration))") auto

text \<open>
  What a call of \<open>kMeans\<close> does: the number of calls of \<open>new_centers\<close> it made, the
  iteration count it printed (\<open>None\<close> when it raised before the \<^verbatim>\<open>print\<close>), and the
  value it returned or the error it raised.
\<close>

record run =
  calls :: nat
  printed :: "nat option"
  ret :: "error + arr \<times> nat list"

definition kMeans :: "(nat \<Rightarrow> nat) \<Rightarrow> arr \<Rightarrow> int \<Rightarrow> int \<Rightarrow> run" where
  "kMeans rng X K max_iter =
     (case random_choice rng (length X) K of
        Inl e \<Rightarrow> \<lparr>calls = 0, printed = None, ret = Inl e\<rparr>
      | Inr idx \<Rightarrow>
          (case kMeans_loop X max_iter (map (\<lambda>i. X ! i) idx) 0 (Val 1) 0 of
             (n, Inl e) \<Rightarrow> \<lparr>calls = n, printed = None, ret = Inl e\<rparr>
           | (n, Inr (centers, iteration)) \<Rightarrow>
               \<lparr>calls = n, printed = Some iteration,
                ret = (case closest X centers of
                         Inl e \<Rightarrow> Inl e
                       | Inr labels \<Rightarrow> Inr (centers, labels))\<rparr>))"

section \<open>Vocabulary of the specification\<close>

text \<open>
  A dataset of the specification is a sequence of points of real numbers, all of
  dimension D. \<open>farr\<close> is the array that holds it.
\<close>

definition rect :: "nat \<Rightarrow> 'a list list \<Rightarrow> bool" where
  "rect D A = list_all (\<lambda>r. length r = D) A"

definition farr :: "real list list \<Rightarrow> arr" where
  "farr A = map (map Val) A"


text \<open>
  The points of cluster k under an assignment c, and the mean of their d-th coordinates.
\<close>

definition members :: "nat list \<Rightarrow> nat \<Rightarrow> nat set" where
  "members c k = {i. i < length c \<and> c ! i = k}"

definition cluster_mean :: "real list list \<Rightarrow> nat list \<Rightarrow> nat \<Rightarrow> nat \<Rightarrow> real" where
  "cluster_mean X c k d = (\<Sum>i\<in>members c k. X ! i ! d) / real (card (members c k))"

definition mean_row :: "nat \<Rightarrow> real list list \<Rightarrow> nat list \<Rightarrow> nat \<Rightarrow> real list" where
  "mean_row D X c k = map (cluster_mean X c k) [0..<D]"




section \<open>Initialisation: \<open>cluster_centers\<close>\<close>

lemma random_choice_ok:
  "0 \<le> K \<Longrightarrow> (a = 0 \<longrightarrow> K = 0) \<Longrightarrow>
   random_choice rng a K = Inr (map (\<lambda>i. rng i mod a) [0..<nat K])"
  by (auto simp: random_choice_def)

text \<open>
  C8. For a dataset of M points and 1 \<le> K \<le> M, whatever the random draws are,
  \<open>cluster_centers\<close> returns exactly K rows, and each of them is a row of the dataset.
\<close>

theorem cluster_centers_K_points:
  assumes "1 \<le> K" and "K \<le> int (length X)"
  shows "\<exists>cs. cluster_centers rng X K = Inr cs \<and> length cs = nat K \<and>
           (\<forall>j<nat K. \<exists>i<length X. cs ! j = X ! i)"
proof -
  from assms have ne: "length X \<noteq> 0" by auto
  have rc: "random_choice rng (length X) K = Inr (map (\<lambda>i. rng i mod length X) [0..<nat K])"
    using assms ne by (intro random_choice_ok) auto
  have "\<forall>j<nat K. \<exists>i<length X.
          map (\<lambda>i. X ! i) (map (\<lambda>i. rng i mod length X) [0..<nat K]) ! j = X ! i"
  proof (intro allI impI)
    fix j assume "j < nat K"
    then show "\<exists>i<length X.
          map (\<lambda>i. X ! i) (map (\<lambda>i. rng i mod length X) [0..<nat K]) ! j = X ! i"
      using ne by (intro exI[of _ "rng j mod length X"]) simp
  qed
  then show ?thesis
    unfolding cluster_centers_def rc by simp
qed

theorem cluster_centers_K_points_witness:
  "\<exists>cs. cluster_centers (\<lambda>i. 3 * i + 1) [[Val 0, Val 0], [Val 1, Val 5], [Val 2, Val 2]] 2 = Inr cs \<and>
     length cs = nat 2 \<and>
     (\<forall>j<nat 2. \<exists>i<length [[Val 0, Val 0], [Val 1, Val 5], [Val 2, Val 2]].
        cs ! j = [[Val 0, Val 0], [Val 1, Val 5], [Val 2, Val 2]] ! i)"
  using cluster_centers_K_points [of 2 "[[Val 0, Val 0], [Val 1, Val 5], [Val 2, Val 2]]" "\<lambda>i. 3 * i + 1"]
  by simp




section \<open>The loop of \<open>kMeans\<close>\<close>

text \<open>
  The loop counts one iteration for each call of \<open>new_centers\<close> that is followed by a
  successful subtraction, and makes no call once the iteration count has reached
  \<open>max_iter\<close>.
\<close>

declare kMeans_loop.simps [simp del]

lemma kMeans_loop_bounds:
  "kMeans_loop X max_iter centers iteration Delta ncalls = (n, r) \<Longrightarrow>
   ncalls \<le> n \<and> int (n - ncalls) \<le> max 0 (max_iter - int iteration) \<and>
   (\<forall>cs it. r = Inr (cs, it) \<longrightarrow> iteration \<le> it \<and> it - iteration = n - ncalls)"
proof (induction X max_iter centers iteration Delta ncalls rule: kMeans_loop.induct)
  case (1 X max_iter centers iteration Delta ncalls)
  show ?case
  proof (cases "fgt Delta (1 / 1000) \<and> int iteration < max_iter")
    case False
    with "1.prems" show ?thesis
      by (auto simp: kMeans_loop.simps)
  next
    case True
    show ?thesis
    proof (cases "new_centers X centers")
      case (Inl e)
      with True "1.prems" show ?thesis
        by (auto simp: kMeans_loop.simps)
    next
      case (Inr moved)
      show ?thesis
      proof (cases "bc_sub2 moved centers")
        case (Inl e)
        with True Inr "1.prems" show ?thesis
          by (auto simp: kMeans_loop.simps)
      next
        case (Inr diff)
        with True \<open>new_centers X centers = Inr moved\<close> "1.prems"
        have rec: "kMeans_loop X max_iter moved (Suc iteration) (fro_norm diff) (Suc ncalls) = (n, r)"
          by (simp add: kMeans_loop.simps)
        from "1.IH"[OF True \<open>new_centers X centers = Inr moved\<close> Inr rec] True
        show ?thesis by auto
      qed
    qed
  qed
qed

text \<open>Evaluation of the functions at concrete arrays.\<close>

lemma sqrt_gt_tol: "0 \<le> a \<Longrightarrow> (sqrt a > 1 / 1000) = (a > 1 / 1000000)"
proof -
  assume "0 \<le> a"
  have "(sqrt a > 1 / 1000) = (sqrt a > sqrt (1 / 1000000))"
    by (simp add: real_sqrt_divide)
  then show ?thesis by simp
qed



lemmas eval_simps = kMeans_def random_choice_def closest_def new_centers_def bc_sub2_def
  bc_row_def bc_ok_def ncols_def l2norm_def fro_norm_def select_rows_def mean_axis0_def
  farr_def upt_rec kMeans_loop.simps sqrt_gt_tol Let_def

text \<open>
  C6. \<open>kMeans_loop\<close> is a total function: its recursion is well-founded on
  \<open>max_iter - iteration\<close>, so every call of \<open>kMeans\<close> ends, with a value or an error.
  For a positive \<open>max_iter\<close> it calls \<open>new_centers\<close> at most \<open>max_iter\<close> times, and the
  iteration count it prints is at most \<open>max_iter\<close> (and is the number of those calls).
\<close>

theorem kMeans_bounded:
  assumes "0 < max_iter"
  shows "int (calls (kMeans rng X K max_iter)) \<le> max_iter \<and>
         (\<forall>it. printed (kMeans rng X K max_iter) = Some it \<longrightarrow>
            int it \<le> max_iter \<and> it = calls (kMeans rng X K max_iter))"
proof (cases "random_choice rng (length X) K")
  case (Inl e)
  with assms show ?thesis by (simp add: kMeans_def)
next
  case (Inr idx)
  obtain n r where l: "kMeans_loop X max_iter (map (\<lambda>i. X ! i) idx) 0 (Val 1) 0 = (n, r)"
    by (cases "kMeans_loop X max_iter (map (\<lambda>i. X ! i) idx) 0 (Val 1) 0")
  from kMeans_loop_bounds[OF l] assms
  have b: "int n \<le> max_iter" "\<And>cs it. r = Inr (cs, it) \<Longrightarrow> it = n" by auto
  show ?thesis
  proof (cases r)
    case (Inl e)
    with Inr l b show ?thesis by (simp add: kMeans_def)
  next
    case (Inr p)
    obtain cs it where p: "p = (cs, it)" by (cases p)
    with Inr b(2)[of cs it] have "it = n" by simp
    with \<open>random_choice rng (length X) K = Inr idx\<close> l Inr p b(1) show ?thesis
      by (simp add: kMeans_def)
  qed
qed


theorem kMeans_bounded_witness:
  "int (calls (kMeans (\<lambda>_. 0) [[Val (-1)], [Val 1]] 1 2)) \<le> 2 \<and>
   printed (kMeans (\<lambda>_. 0) [[Val (-1)], [Val 1]] 1 2) = Some 2 \<and>
   calls (kMeans (\<lambda>_. 0) [[Val (-1)], [Val 1]] 1 2) = 2"
  using kMeans_bounded [of 2 "\<lambda>_. 0" "[[Val (-1)], [Val 1]]" 1]
  by (simp add: eval_simps)





section \<open>Assignment: \<open>closest\<close>\<close>

text \<open>On numbers the lifted operations are the exact ones.\<close>

lemma fsum_map_Val: "fsum (map (\<lambda>x. Val (f x)) xs) = Val (\<Sum>x\<leftarrow>xs. f x)"
  by (induction xs) simp_all







lemma rect_mem: "rect D A \<Longrightarrow> r \<in> set A \<Longrightarrow> length r = D"
  by (simp add: rect_def list_all_iff)

lemma ncols_farr: "rect D A \<Longrightarrow> A \<noteq> [] \<Longrightarrow> ncols (farr A) = D"
  by (cases A) (simp_all add: ncols_def farr_def rect_def)





section \<open>Update: \<open>new_centers\<close>\<close>

lemma finite_members [simp]: "finite (members c k)"
  by (simp add: members_def)

lemma members_empty_iff: "members c k = {} \<longleftrightarrow> k \<notin> set c"
  by (auto simp: members_def in_set_conv_nth)

text \<open>The rows under the mask are the rows at the indices of the cluster, in order.\<close>

lemma select_rows_index:
  assumes "length c = length X"
  shows "select_rows X c k = map (\<lambda>i. X ! i) (filter (\<lambda>i. c ! i = k) [0..<length X])"
proof -
  have z: "zip X c = map (\<lambda>i. (X ! i, c ! i)) [0..<length X]"
    using assms by (intro nth_equalityI) simp_all
  show ?thesis
    unfolding select_rows_def z by (simp add: filter_map comp_def)
qed

lemma set_filter_members:
  "length c = M \<Longrightarrow> set (filter (\<lambda>i. c ! i = k) [0..<M]) = members c k"
  by (auto simp: members_def)

lemma length_select_rows:
  assumes "length c = length X"
  shows "length (select_rows X c k) = card (members c k)"
proof -
  have "card (members c k) = length (filter (\<lambda>i. c ! i = k) [0..<length X])"
    using set_filter_members[OF assms, of k] distinct_card[of "filter (\<lambda>i. c ! i = k) [0..<length X]"]
    by simp
  then show ?thesis by (simp add: select_rows_index[OF assms])
qed

lemma sum_select_rows:
  assumes "length c = length X"
  shows "(\<Sum>r\<leftarrow>select_rows X c k. f r) = (\<Sum>i\<in>members c k. f (X ! i))"
proof -
  have "(\<Sum>r\<leftarrow>select_rows X c k. f r)
          = (\<Sum>i\<leftarrow>filter (\<lambda>i. c ! i = k) [0..<length X]. f (X ! i))"
    by (simp add: select_rows_index[OF assms] comp_def)
  also have "\<dots> = (\<Sum>i\<in>set (filter (\<lambda>i. c ! i = k) [0..<length X]). f (X ! i))"
    by (intro sum_list_distinct_conv_sum_set) simp
  finally show ?thesis
    by (simp only: set_filter_members[OF assms])
qed

lemma select_rows_map: "select_rows (map f X) c k = map f (select_rows X c k)"
proof -
  have "map fst (filter (\<lambda>(x, l). l = k) (zip (map f X) c))
          = map f (map fst (filter (\<lambda>(x, l). l = k) (zip X c)))"
  proof (induction X arbitrary: c)
    case Nil
    then show ?case by simp
  next
    case (Cons x X)
    then show ?case by (cases c) simp_all
  qed
  then show ?thesis by (simp add: select_rows_def)
qed

lemma select_rows_subset: "set (select_rows X c k) \<subseteq> set X"
proof -
  have "fst ` set (filter (\<lambda>(x, l). l = k) (zip X c)) \<subseteq> set X"
    by (auto dest: set_zip_leftD)
  then show ?thesis by (simp add: select_rows_def)
qed

text \<open>The mean along axis 0 of rows of numbers, and of no rows.\<close>

lemma mean_axis0_Nil: "mean_axis0 D [] = replicate D NaN"
  by (simp add: mean_axis0_def map_replicate_const)

lemma mean_axis0_farr:
  assumes "rect D R" and "R \<noteq> []"
  shows "mean_axis0 D (farr R) = map (\<lambda>d. Val ((\<Sum>r\<leftarrow>R. r ! d) / real (length R))) [0..<D]"
proof -
  have "fsum (map (\<lambda>r. r ! d) (farr R)) = Val (\<Sum>r\<leftarrow>R. r ! d)" if "d < D" for d
  proof -
    have "map (\<lambda>r. r ! d) (farr R) = map (\<lambda>r. Val (r ! d)) R"
      using assms(1) that by (auto simp: farr_def rect_mem)
    then show ?thesis by (simp only: fsum_map_Val)
  qed
  with assms(2) show ?thesis
    by (simp add: mean_axis0_def farr_def)
qed

lemma remdups_card: "length (remdups c) = card (set c)"
  by (simp add: length_remdups_card_conv)

lemma closest_length: "closest X C = Inr c \<Longrightarrow> length c = length X"
  by (auto simp: closest_def split: if_splits)

text \<open>
  The rows of the result: row k is the mean of cluster k when the cluster has a point,
  and a row of NaN when it has none.
\<close>

lemma new_centers_rows:
  assumes X: "rect D X" and c: "closest (farr X) C = Inr c"
  shows "new_centers (farr X) C =
           Inr (map (\<lambda>k. if k \<in> set c then map Val (mean_row D X c k) else replicate D NaN)
                  [0..<card (set c)])"
proof -
  have len: "length c = length X" using closest_length[OF c] by (simp add: farr_def)
  have row: "mean_axis0 (ncols (farr X)) (select_rows (farr X) c k)
               = (if k \<in> set c then map Val (mean_row D X c k) else replicate D NaN)"
    if "X \<noteq> []" for k
  proof -
    have nc: "ncols (farr X) = D" using X that by (rule ncols_farr)
    have sel: "select_rows (farr X) c k = farr (select_rows X c k)"
      by (simp add: farr_def select_rows_map)
    show ?thesis
    proof (cases "k \<in> set c")
      case False
      then have "members c k = {}" by (simp add: members_empty_iff)
      with length_select_rows[OF len, of k] have "select_rows X c k = []" by simp
      then have "farr (select_rows X c k) = []" by (simp add: farr_def)
      with False show ?thesis unfolding nc sel by (simp add: mean_axis0_Nil)
    next
      case True
      then have "members c k \<noteq> {}" by (simp add: members_empty_iff)
      with length_select_rows[OF len, of k] have ne: "select_rows X c k \<noteq> []"
        by (metis card_eq_0_iff finite_members list.size(3))
      have r: "rect D (select_rows X c k)"
        using X select_rows_subset[of X c k] by (auto simp: rect_def list_all_iff)
      have "mean_axis0 D (farr (select_rows X c k)) = map Val (mean_row D X c k)"
        unfolding mean_axis0_farr[OF r ne]
        by (simp add: mean_row_def cluster_mean_def sum_select_rows[OF len]
            length_select_rows[OF len])
      with True show ?thesis by (simp add: nc sel)
    qed
  qed
  show ?thesis
  proof (cases "X = []")
    case True
    with len c show ?thesis by (simp add: new_centers_def)
  next
    case False
    with row c show ?thesis by (simp add: new_centers_def remdups_card)
  qed
qed

text \<open>Every label is the index of a center, whatever the entries are.\<close>

lemma argmin_scan_range:
  "argmin_scan mp mi i xs = mi \<or> (i \<le> argmin_scan mp mi i xs \<and> argmin_scan mp mi i xs < i + length xs)"
proof (induction xs arbitrary: mp mi i)
  case Nil
  then show ?case by simp
next
  case (Cons x xs)
  show ?case
    using Cons.IH[of x i "Suc i"] Cons.IH[of mp mi "Suc i"] by auto
qed

lemma np_argmin_less: "xs \<noteq> [] \<Longrightarrow> np_argmin xs < length xs"
proof (cases xs)
  case Nil
  then show "xs \<noteq> [] \<Longrightarrow> ?thesis" by simp
next
  case (Cons x ys)
  then show ?thesis
    using argmin_scan_range[of x 0 1 ys] by auto
qed

lemma closest_labels_less:
  assumes "closest X C = Inr c"
  shows "set c \<subseteq> {0..<length C}"
proof -
  from assms have ne: "C \<noteq> []"
    and c: "c = map (\<lambda>x. np_argmin (map (\<lambda>c. l2norm (bc_row fsub x c)) C)) X"
    by (auto simp: closest_def split: if_splits)
  have "np_argmin (map (\<lambda>c. l2norm (bc_row fsub x c)) C) < length C" for x
    using np_argmin_less[of "map (\<lambda>c. l2norm (bc_row fsub x c)) C"] ne by simp
  then show ?thesis unfolding c by auto
qed



text \<open>
  C2 as the specification states it: a step that leaves a cluster empty is reported to
  the caller as a condition of its own. The code reports nothing. With the points 0 and
  2 and the centers 1 and 5 both points take label 0, and the call returns the one row
  1 as an ordinary array: the value it returns for the single center 1, where no
  cluster is empty.
\<close>

theorem new_centers_no_report:
  "new_centers (farr [[0], [2]]) (farr [[1], [5]]) = Inr [[Val 1]] \<and>
   new_centers (farr [[0], [2]]) (farr [[1]]) = Inr [[Val 1]]"
  by (simp add: eval_simps)

text \<open>
  C2, amended. When some cluster index receives no point, \<open>new_centers\<close> does not raise:
  it returns an ordinary array with one row for each distinct label of the
  assignment, so with fewer than K rows. No condition is reported.
\<close>

theorem new_centers_shrinks:
  assumes "rect D X" and "closest (farr X) C = Inr c" and "j < length C" and "j \<notin> set c"
  shows "\<exists>N. new_centers (farr X) C = Inr N \<and> length N = card (set c) \<and> length N < length C"
proof -
  from closest_labels_less[OF assms(2)] assms(3,4)
  have "set c \<subseteq> {0..<length C} - {j}" by auto
  then have "card (set c) \<le> card ({0..<length C} - {j})"
    by (intro card_mono) auto
  also have "\<dots> < length C" using assms(3) by simp
  finally have "card (set c) < length C" .
  then show ?thesis
    unfolding new_centers_rows[OF assms(1,2)] by simp
qed

theorem new_centers_shrinks_witness:
  "rect 1 [[0], [2::real]] \<and> closest (farr [[0], [2]]) (farr [[1], [5]]) = Inr [0, 0] \<and>
   (\<exists>N. new_centers (farr [[0], [2]]) (farr [[1], [5]]) = Inr N \<and> length N = card (set [0, 0::nat]) \<and>
      length N < length (farr [[1], [5]]))"
  using new_centers_shrinks [of 1 "[[0], [2]]" "farr [[1], [5]]" "[0, 0]" 1]
  by (simp add: rect_def eval_simps)





section \<open>The update step does not increase the within-cluster sum of squares\<close>









section \<open>A converged center set keeps its assignment\<close>














end
